theory Spec2Isabelle
  imports Complex_Main "HOL-Library.Log_Nat"
begin

section \<open>Training state (manage\_state.py)\<close>

text \<open>
  The state document of \<^verbatim>\<open>manage_state.py\<close> is a JSON object. Each dimension entry
  holds the last score, the optional baseline and the number of samples; the
  document holds the level, the points, the dimension dictionary, the challenge
  list and the time of the last save. Python integers are unbounded and are
  modelled as \<open>int\<close>. Scores arrive from the command line as Python floats,
  that is IEEE 754 binary64 numbers; a finite float is modelled as the real
  number it denotes, and the arithmetic on floats is modelled below with its
  rounding.
\<close>

record dim_state =
  current :: real
  baseline :: "real option"
  samples :: int

type_synonym timestamp = string

record training_state =
  level :: int
  points :: int
  dimensions :: "string \<rightharpoonup> dim_state"
  active_challenges :: "string list"
  last_updated :: timestamp

text \<open>
  The state file \<^verbatim>\<open>state.json\<close>: \<open>None\<close> while the file does not exist, otherwise
  the document it holds.
\<close>

type_synonym store = "training_state option"

text \<open>The dictionary returned by a successful \<^verbatim>\<open>update_dimension\<close>.\<close>

record report =
  rep_dimension :: string
  rep_score :: real
  rep_baseline :: "real option"
  rep_baseline_established :: bool
  rep_samples :: int
  rep_points_earned :: int
  rep_total_points :: int

text \<open>The dictionary \<^verbatim>\<open>{"error": ...}\<close> returned for a dimension that is not a key.\<close>

datatype error = UnknownDimension string

definition dimension_names :: "string list" where
  "dimension_names =
     [''clarity'', ''vocal_control'', ''presence'', ''persuasion'', ''boundary_setting'']"

definition fresh_dim :: dim_state where
  "fresh_dim = \<lparr>current = 0, baseline = None, samples = 0\<rparr>"

text \<open>
  \<^verbatim>\<open>load_state\<close>: the default document when there is no file (its time stamp is the
  time of the call), the stored document otherwise.
\<close>

definition load_state :: "timestamp \<Rightarrow> store \<Rightarrow> training_state" where
  "load_state now st =
     (case st of
        None \<Rightarrow>
          \<lparr>level = 1, points = 0,
           dimensions = map_of
             [(''clarity'', fresh_dim), (''vocal_control'', fresh_dim),
              (''presence'', fresh_dim), (''persuasion'', fresh_dim),
              (''boundary_setting'', fresh_dim)],
           active_challenges = [], last_updated = now\<rparr>
      | Some doc \<Rightarrow> doc)"

text \<open>\<^verbatim>\<open>save_state\<close>: stamp the document and replace the file.\<close>

definition save_state :: "timestamp \<Rightarrow> training_state \<Rightarrow> store" where
  "save_state now state = Some (state\<lparr>last_updated := now\<rparr>)"

definition baseline_threshold :: "(string \<times> int) list" where
  "baseline_threshold =
     [(''email-formal'', 10), (''email-casual'', 10), (''slack'', 15),
      (''sms'', 15), (''presentation'', 5), (''conversation'', 10)]"

text \<open>\<^verbatim>\<open>baseline_threshold.get(modality, 10)\<close>.\<close>

definition threshold_of :: "string \<Rightarrow> int" where
  "threshold_of modality =
     (case map_of baseline_threshold modality of Some n \<Rightarrow> n | None \<Rightarrow> 10)"

subsection \<open>Float arithmetic\<close>

text \<open>
  A binary64 number has a significand of 53 bits. A real number \<open>x\<close> with
  \<open>2 ^ e \<le> \<bar>x\<bar> < 2 ^ (e + 1)\<close> lies between two neighbouring floats that are
  \<open>2 ^ (e - 52)\<close> apart, and below the smallest normal number \<open>2 ^ (- 1022)\<close>
  the floats are \<open>2 ^ (- 1074)\<close> apart. An operation on floats returns the
  float nearest to the exact result, the one with the even significand when
  two are equally near. Results beyond the largest float, about
  \<open>1.8 * 10 ^ 308\<close>, are infinite in Python, and \<^verbatim>\<open>int\<close> of an infinite float
  raises \<^verbatim>\<open>OverflowError\<close>; infinities and NaN are outside the model. They need
  a score far outside the range from 0 to 10 that \<^verbatim>\<open>update_dimension\<close> documents.

  \<open>pow2 k\<close> is \<open>2 ^ k\<close> for an integer \<open>k\<close> of either sign.
\<close>

definition pow2 :: "int \<Rightarrow> real" where
  "pow2 k = (if 0 \<le> k then 2 ^ nat k else 1 / 2 ^ nat (- k))"

text \<open>
  The exponent \<open>e\<close> with \<open>2 ^ e \<le> \<bar>x\<bar> < 2 ^ (e + 1)\<close>, read off the number of bits
  of the integer part of \<open>\<bar>x\<bar>\<close> or of its inverse, and not below \<open>- 1022\<close>.
\<close>

definition float_exponent :: "real \<Rightarrow> int" where
  "float_exponent x =
     max (- 1022)
       (if 1 \<le> \<bar>x\<bar> then bitlen \<lfloor>\<bar>x\<bar>\<rfloor> - 1 else - bitlen (\<lceil>1 / \<bar>x\<bar>\<rceil> - 1))"

definition round_half_even :: "real \<Rightarrow> int" where
  "round_half_even y =
     (let n = \<lfloor>y\<rfloor>; r = y - of_int n
      in if r < 1 / 2 then n else if 1 / 2 < r then n + 1 else if even n then n else n + 1)"

definition fl_round :: "real \<Rightarrow> real" where
  "fl_round x =
     (let ulp = pow2 (float_exponent x - 52)
      in of_int (round_half_even (x / ulp)) * ulp)"

text \<open>\<^verbatim>\<open>x - y\<close> and \<^verbatim>\<open>x * y\<close> on floats.\<close>

definition fl_sub :: "real \<Rightarrow> real \<Rightarrow> real" where
  "fl_sub x y = fl_round (x - y)"

definition fl_mul :: "real \<Rightarrow> real \<Rightarrow> real" where
  "fl_mul x y = fl_round (x * y)"

text \<open>Python's \<^verbatim>\<open>int(x)\<close> on a float: truncation towards zero.\<close>

definition py_int :: "real \<Rightarrow> int" where
  "py_int x = (if x < 0 then \<lceil>x\<rceil> else \<lfloor>x\<rfloor>)"

text \<open>
  \<^verbatim>\<open>update_dimension\<close>. The two time stamps are the values of \<^verbatim>\<open>datetime.now()\<close> in
  \<^verbatim>\<open>load_state\<close> and in \<^verbatim>\<open>save_state\<close>. The result is the returned dictionary and
  the state file after the call; the early return leaves the file as it was.
\<close>

definition update_dimension ::
  "timestamp \<Rightarrow> timestamp \<Rightarrow> store \<Rightarrow> string \<Rightarrow> real \<Rightarrow> string \<Rightarrow> (error + report) \<times> store"
where
  "update_dimension t_load t_save st dimension score modality =
     (let state = load_state t_load st in
      case dimensions state dimension of
        None \<Rightarrow> (Inl (UnknownDimension dimension), st)
      | Some ds0 \<Rightarrow>
          let ds1 = ds0\<lparr>current := score, samples := samples ds0 + 1\<rparr>;
              threshold = threshold_of modality;
              established = (baseline ds1 = None \<and> samples ds1 \<ge> threshold);
              ds2 = (if established then ds1\<lparr>baseline := Some score\<rparr> else ds1);
              points_earned =
                (case baseline ds2 of
                   None \<Rightarrow> 0
                 | Some b \<Rightarrow>
                     let improvement = fl_sub score b
                     in if improvement > 0 then py_int (fl_mul improvement 2) else 0);
              state' = state\<lparr>dimensions := (dimensions state)(dimension \<mapsto> ds2),
                             points := points state + points_earned\<rparr>
          in (Inr \<lparr>rep_dimension = dimension, rep_score = score,
                    rep_baseline = baseline ds2,
                    rep_baseline_established = established,
                    rep_samples = samples ds2,
                    rep_points_earned = points_earned,
                    rep_total_points = points state'\<rparr>,
              save_state t_save state'))"

text \<open>
  A sequence of \<^verbatim>\<open>--update\<close> commands: each call carries the two time stamps
  and the three arguments. The run returns the dictionary of every call, in
  order, and the state file at the end.
\<close>

record update_call =
  at_load :: timestamp
  at_save :: timestamp
  call_dimension :: string
  call_score :: real
  call_modality :: string

fun run_updates :: "store \<Rightarrow> update_call list \<Rightarrow> (error + report) list \<times> store" where
  "run_updates st [] = ([], st)"
| "run_updates st (c # calls) =
     (let (r, st') = update_dimension (at_load c) (at_save c) st
                       (call_dimension c) (call_score c) (call_modality c);
          (rs, st'') = run_updates st' calls
      in (r # rs, st''))"

text \<open>The entry of a dimension in the document that the next call would load.\<close>

definition dim_entry :: "store \<Rightarrow> string \<Rightarrow> dim_state option" where
  "dim_entry st d = dimensions (load_state [] st) d"

definition stored_points :: "store \<Rightarrow> int" where
  "stored_points st = points (load_state [] st)"

text \<open>
  A document is well formed when its dimension keys are the five fixed names
  (section 3 of the specification).
\<close>

definition wf_store :: "store \<Rightarrow> bool" where
  "wf_store st = (dom (dimensions (load_state [] st)) = set dimension_names)"

subsection \<open>Vocabulary of the proofs\<close>

text \<open>
  The baseline of a dimension after one more sample (lines 85 to 87 of
  \<^verbatim>\<open>manage_state.py\<close>) and the points awarded against a baseline (lines 93 to 97),
  named so that the lemmas about a single call can be stated.
\<close>

definition new_baseline :: "dim_state \<Rightarrow> real \<Rightarrow> string \<Rightarrow> real option" where
  "new_baseline ds score m =
     (if baseline ds = None \<and> threshold_of m \<le> samples ds + 1 then Some score
      else baseline ds)"

definition earned :: "real option \<Rightarrow> real \<Rightarrow> int" where
  "earned b score =
     (case b of
        None \<Rightarrow> 0
      | Some x \<Rightarrow>
          if fl_sub score x > 0 then py_int (fl_mul (fl_sub score x) 2) else 0)"

definition calls_on :: "string \<Rightarrow> update_call list \<Rightarrow> int" where
  "calls_on d calls = int (length (filter (\<lambda>c. call_dimension c = d) calls))"

text \<open>
  The range of a score that the docstring of \<^verbatim>\<open>update_dimension\<close> and section 3
  of the specification give.
\<close>

definition in_score_range :: "real \<Rightarrow> bool" where
  "in_score_range x = (0 \<le> x \<and> x \<le> 10)"

text \<open>
  A stored document and a sequence of calls used as concrete inputs: clarity
  has a baseline of 4 after ten samples, presence has four samples and no
  baseline yet.
\<close>

definition sample_store :: store where
  "sample_store =
     Some \<lparr>level = 1, points = 3,
           dimensions = map_of
             [(''clarity'', \<lparr>current = 4, baseline = Some 4, samples = 10\<rparr>),
              (''vocal_control'', fresh_dim),
              (''presence'', \<lparr>current = 7, baseline = None, samples = 4\<rparr>),
              (''persuasion'', fresh_dim),
              (''boundary_setting'', fresh_dim)],
           active_challenges = [], last_updated = ''2024-01-01T00:00:00''\<rparr>"



definition call_on :: "string \<Rightarrow> real \<Rightarrow> update_call" where
  "call_on d x =
     \<lparr>at_load = ''t'', at_save = ''t'', call_dimension = d, call_score = x,
      call_modality = ''presentation''\<rparr>"

definition sample_calls :: "update_call list" where
  "sample_calls =
     [call_on ''clarity'' 3, call_on ''presence'' 8, call_on ''clarity'' 4,
      call_on ''clarity'' 5, call_on ''clarity'' 6, call_on ''clarity'' 7,
      call_on ''clarity'' 9]"

section \<open>Text analysis (analyze\_comm.py)\<close>

subsection \<open>Characters and the string methods of Python\<close>

text \<open>
  A text is a Python \<^verbatim>\<open>str\<close>. It is modelled as a list of 8-bit characters, each
  standing for the code point of the same number, so the texts covered are
  those whose code points lie below 256. On these code points
  \<^verbatim>\<open>str.isspace\<close>, the classes \<^verbatim>\<open>\w\<close> and \<^verbatim>\<open>\d\<close> of \<^verbatim>\<open>re\<close> and \<^verbatim>\<open>str.lower\<close> are the
  following tables.
\<close>

definition is_space :: "char \<Rightarrow> bool" where
  "is_space c =
     (let n = (of_char c :: nat)
      in (9 \<le> n \<and> n \<le> 13) \<or> (28 \<le> n \<and> n \<le> 32) \<or> n = 133 \<or> n = 160)"

definition is_digit :: "char \<Rightarrow> bool" where
  "is_digit c = (let n = (of_char c :: nat) in 48 \<le> n \<and> n \<le> 57)"

definition is_word :: "char \<Rightarrow> bool" where
  "is_word c =
     (let n = (of_char c :: nat)
      in (48 \<le> n \<and> n \<le> 57) \<or> (65 \<le> n \<and> n \<le> 90) \<or> n = 95 \<or> (97 \<le> n \<and> n \<le> 122)
         \<or> n = 170 \<or> n = 178 \<or> n = 179 \<or> n = 181 \<or> n = 185 \<or> n = 186
         \<or> (188 \<le> n \<and> n \<le> 190) \<or> (192 \<le> n \<and> n \<le> 214)
         \<or> (216 \<le> n \<and> n \<le> 246) \<or> 248 \<le> n)"

definition is_upper :: "char \<Rightarrow> bool" where
  "is_upper c =
     (let n = (of_char c :: nat)
      in (65 \<le> n \<and> n \<le> 90) \<or> (192 \<le> n \<and> n \<le> 214) \<or> (216 \<le> n \<and> n \<le> 222))"

definition lower_char :: "char \<Rightarrow> char" where
  "lower_char c = (if is_upper c then char_of (of_char c + 32 :: nat) else c)"

text \<open>\<^verbatim>\<open>text.lower()\<close>.\<close>

definition lower :: "string \<Rightarrow> string" where
  "lower text = map lower_char text"

text \<open>\<^verbatim>\<open>s.strip()\<close>: white space removed at both ends.\<close>

definition strip :: "string \<Rightarrow> string" where
  "strip s = rev (dropWhile is_space (rev (dropWhile is_space s)))"

text \<open>
  \<^verbatim>\<open>text.split()\<close>: the maximal runs of characters that are not white space.
  The first argument is the word being read.
\<close>

fun split_words :: "string \<Rightarrow> string \<Rightarrow> string list" where
  "split_words w [] = (if w = [] then [] else [w])"
| "split_words w (c # cs) =
     (if is_space c then (if w = [] then [] else [w]) @ split_words [] cs
      else split_words (w @ [c]) cs)"

definition py_split :: "string \<Rightarrow> string list" where
  "py_split text = split_words [] text"

text \<open>
  \<^verbatim>\<open>text.count(sub)\<close>: the occurrences of \<open>sub\<close> found from left to right, the
  search resuming after the end of each occurrence. The counter \<open>skip\<close> is the
  number of characters of the last occurrence still to be passed.
\<close>

fun starts_with :: "string \<Rightarrow> string \<Rightarrow> bool" where
  "starts_with [] s = True"
| "starts_with (a # as) [] = False"
| "starts_with (a # as) (c # cs) = (a = c \<and> starts_with as cs)"

fun count_from :: "string \<Rightarrow> nat \<Rightarrow> string \<Rightarrow> nat" where
  "count_from sub skip [] = 0"
| "count_from sub skip (c # cs) =
     (if skip > 0 then count_from sub (skip - 1) cs
      else if starts_with sub (c # cs) then 1 + count_from sub (length sub - 1) cs
      else count_from sub 0 cs)"

definition str_count :: "string \<Rightarrow> string \<Rightarrow> nat" where
  "str_count text sub = (if sub = [] then length text + 1 else count_from sub 0 text)"

subsection \<open>The regular expressions of the program\<close>

text \<open>
  The patterns of \<^verbatim>\<open>analyze_comm.py\<close> use literals, the word boundary \<^verbatim>\<open>\b\<close>,
  alternation, concatenation and the greedy repetitions \<^verbatim>\<open>\w+\<close>, \<^verbatim>\<open>\d+\<close> and
  \<^verbatim>\<open>[.!?]+\<close>. Every call passes \<^verbatim>\<open>re.IGNORECASE\<close> except the ones on \<^verbatim>\<open>[.!?]+\<close>, which
  has no letters, so a literal is compared up to case. The matcher is the
  backtracking matcher of \<^verbatim>\<open>re\<close>: the ends of the matches that start at a
  position are listed in the order in which backtracking tries them, and the
  first one is the match.
\<close>

datatype char_class = WordChar | DigitChar | StopChar

fun in_class :: "char_class \<Rightarrow> char \<Rightarrow> bool" where
  "in_class WordChar c = is_word c"
| "in_class DigitChar c = is_digit c"
| "in_class StopChar c = (c = CHR ''.'' \<or> c = CHR ''!'' \<or> c = CHR ''?'')"

datatype regex =
    Lit string
  | Bnd
  | Many1 char_class
  | Alt "regex list"
  | Seq "regex list"

text \<open>
  A cursor: the number of characters matched so far, the character before the
  position (none at the start of the text) and the rest of the text.
\<close>

type_synonym cursor = "nat \<times> char option \<times> string"

fun lit_end :: "string \<Rightarrow> cursor \<Rightarrow> cursor option" where
  "lit_end [] cur = Some cur"
| "lit_end (a # as) (n, prev, []) = None"
| "lit_end (a # as) (n, prev, c # cs) =
     (if lower_char c = lower_char a then lit_end as (Suc n, Some c, cs) else None)"

text \<open>Greedy repetition, one or more: the longest run first.\<close>

fun many1_ends :: "char_class \<Rightarrow> cursor \<Rightarrow> cursor list" where
  "many1_ends k (n, prev, []) = []"
| "many1_ends k (n, prev, c # cs) =
     (if in_class k c then many1_ends k (Suc n, Some c, cs) @ [(Suc n, Some c, cs)] else [])"

text \<open>\<^verbatim>\<open>\b\<close>: exactly one of the two neighbours is a word character.\<close>

fun at_boundary :: "cursor \<Rightarrow> bool" where
  "at_boundary (n, prev, s) =
     ((case prev of None \<Rightarrow> False | Some p \<Rightarrow> is_word p)
      \<noteq> (case s of [] \<Rightarrow> False | c # cs \<Rightarrow> is_word c))"

fun ends :: "regex \<Rightarrow> cursor \<Rightarrow> cursor list" where
  "ends (Lit l) cur = (case lit_end l cur of None \<Rightarrow> [] | Some e \<Rightarrow> [e])"
| "ends Bnd cur = (if at_boundary cur then [cur] else [])"
| "ends (Many1 k) cur = many1_ends k cur"
| "ends (Alt rs) cur = concat (map (\<lambda>r. ends r cur) rs)"
| "ends (Seq rs) cur = foldl (\<lambda>curs r. concat (map (ends r) curs)) [cur] rs"

text \<open>The length of the match that starts at a position, if there is one.\<close>

definition match_at :: "regex \<Rightarrow> char option \<Rightarrow> string \<Rightarrow> nat option" where
  "match_at r prev s = (case ends r (0, prev, s) of [] \<Rightarrow> None | (n, e) # es \<Rightarrow> Some n)"

text \<open>
  The scan of \<^verbatim>\<open>re.finditer\<close>: the matches from left to right, as pairs of start
  and length, the search resuming at the end of each match. No pattern of the
  program matches the empty string, so the rules of \<^verbatim>\<open>re\<close> for empty matches
  are not involved.
\<close>

fun spans_from :: "regex \<Rightarrow> nat \<Rightarrow> nat \<Rightarrow> char option \<Rightarrow> string \<Rightarrow> (nat \<times> nat) list" where
  "spans_from r skip i prev [] = []"
| "spans_from r skip i prev (c # cs) =
     (if skip > 0 then spans_from r (skip - 1) (Suc i) (Some c) cs
      else case match_at r prev (c # cs) of
             None \<Rightarrow> spans_from r 0 (Suc i) (Some c) cs
           | Some n \<Rightarrow> (i, n) # spans_from r (n - 1) (Suc i) (Some c) cs)"

definition finditer :: "regex \<Rightarrow> string \<Rightarrow> (nat \<times> nat) list" where
  "finditer r text = spans_from r 0 0 None text"

text \<open>\<^verbatim>\<open>len(re.findall(pattern, text, re.IGNORECASE))\<close>.\<close>

definition findall_count :: "regex \<Rightarrow> string \<Rightarrow> nat" where
  "findall_count r text = length (finditer r text)"

text \<open>\<^verbatim>\<open>re.search(pattern, text, re.IGNORECASE)\<close> as a truth value.\<close>

definition re_search :: "regex \<Rightarrow> string \<Rightarrow> bool" where
  "re_search r text = (finditer r text \<noteq> [])"

text \<open>
  \<^verbatim>\<open>re.split(pattern, text)\<close> for a pattern without groups: the pieces of the text
  between the matches, empty pieces included.
\<close>

fun cut_at :: "(nat \<times> nat) list \<Rightarrow> nat \<Rightarrow> string \<Rightarrow> string list" where
  "cut_at [] pos s = [s]"
| "cut_at ((i, n) # sps) pos s =
     take (i - pos) s # cut_at sps (i + n) (drop (i + n - pos) s)"

definition re_split :: "regex \<Rightarrow> string \<Rightarrow> string list" where
  "re_split r text = cut_at (finditer r text) 0 text"

text \<open>\<^verbatim>\<open>\b(w1|w2|...)\b\<close> and \<^verbatim>\<open>\bw\b\<close>.\<close>

definition phrase :: "string list \<Rightarrow> regex" where
  "phrase ws = Seq [Bnd, Alt (map Lit ws), Bnd]"

text \<open>\<^verbatim>\<open>[.!?]+\<close>.\<close>

definition sentence_stops :: regex where
  "sentence_stops = Many1 StopChar"

subsection \<open>Feature extraction\<close>

definition count_words :: "string \<Rightarrow> nat" where
  "count_words text = length (py_split text)"

text \<open>
  Lines 19 and 20 of \<^verbatim>\<open>average_sentence_length\<close>: the pieces between the runs of
  \<^verbatim>\<open>.\<close>, \<^verbatim>\<open>!\<close> and \<^verbatim>\<open>?\<close>, stripped, without the empty ones.
\<close>

definition sentences_of :: "string \<Rightarrow> string list" where
  "sentences_of text =
     (let sentences = re_split sentence_stops text
      in map strip (filter (\<lambda>s. strip s \<noteq> []) sentences))"

definition average_sentence_length :: "string \<Rightarrow> real" where
  "average_sentence_length text =
     (let sentences = sentences_of text
      in if sentences = [] then 0
         else let words_per_sentence = map (\<lambda>s. length (py_split s)) sentences
              in real (sum_list words_per_sentence) / real (length words_per_sentence))"

definition fillers :: "string list" where
  "fillers =
     [''um'', ''uh'', ''like'', ''you know'', ''actually'', ''basically'', ''literally'',
      ''just'', ''really'', ''very'', ''kind of'', ''sort of'', ''maybe'', ''probably'',
      ''I think'', ''I guess'', ''perhaps'', ''possibly'']"

text \<open>
  \<^verbatim>\<open>count_filler_words\<close>: the text is lowered, each filler is counted in it as it
  is written in the list.
\<close>

definition count_filler_words :: "string \<Rightarrow> nat" where
  "count_filler_words text =
     (let text_lower = lower text
      in foldl (\<lambda>count filler. count + str_count text_lower filler) 0 fillers)"

definition weak_patterns :: "regex list" where
  "weak_patterns =
     [Lit ''?'',
      phrase [''hope''], phrase [''try''], phrase [''might''], phrase [''maybe''],
      phrase [''sorry''], phrase [''just''], phrase [''kind of''],
      phrase [''I think''], phrase [''probably'']]"

definition detect_weak_language :: "string \<Rightarrow> nat" where
  "detect_weak_language text =
     foldl (\<lambda>count pattern. count + findall_count pattern text) 0 weak_patterns"

definition strong_patterns :: "regex list" where
  "strong_patterns =
     [Seq [Bnd, Lit ''I '',
           Alt (map Lit [''will'', ''have decided'', ''decided'', ''am'', ''built'', ''launched'']),
           Bnd],
      phrase [''First'', ''Second'', ''Third'', ''Therefore'', ''In summary'', ''Specifically''],
      phrase [''must'', ''need to'', ''require'']]"

definition detect_strong_markers :: "string \<Rightarrow> nat" where
  "detect_strong_markers text =
     foldl (\<lambda>count pattern. count + findall_count pattern text) 0 strong_patterns"

text \<open>\<^verbatim>\<open>\b(is|are|was|were|be|been|being) \w+ed\b\<close>.\<close>

definition passive_pattern :: regex where
  "passive_pattern =
     Seq [Bnd, Alt (map Lit [''is'', ''are'', ''was'', ''were'', ''be'', ''been'', ''being'']),
          Lit '' '', Many1 WordChar, Lit ''ed'', Bnd]"

definition detect_passive_voice :: "string \<Rightarrow> nat" where
  "detect_passive_voice text = findall_count passive_pattern text"

definition ethos_patterns :: "regex list" where
  "ethos_patterns =
     [Seq [Bnd, Alt (map Lit [''I've'', ''I have'']), Lit '' '',
           Alt (map Lit [''built'', ''launched'', ''led'', ''managed'', ''delivered'']), Bnd],
      phrase [''experience'', ''track record'', ''expertise''],
      Seq [Bnd, Alt (map Lit [''research'', ''study'', ''data'']), Lit '' shows'', Bnd]]"

definition pathos_patterns :: "regex list" where
  "pathos_patterns =
     [phrase [''imagine'', ''picture'', ''consider''],
      phrase [''risk'', ''opportunity'', ''critical'', ''urgent''],
      Seq [Bnd, Lit ''if we '', Alt (map Lit [''don't'', ''fail to'']), Bnd],
      phrase [''story'', ''example'', ''case'']]"

definition logos_patterns :: "regex list" where
  "logos_patterns =
     [phrase [''because'', ''therefore'', ''thus'', ''since''],
      Seq [Bnd, Alt [Seq [Many1 DigitChar, Lit ''%''], Seq [Many1 DigitChar, Lit '' percent'']],
           Bnd],
      phrase [''data'', ''evidence'', ''proof'', ''shows'', ''demonstrates''],
      phrase [''First'', ''Second'', ''Third'']]"

definition detect_rhetoric_elements :: "string \<Rightarrow> nat \<times> nat \<times> nat" where
  "detect_rhetoric_elements text =
     (let ethos = sum_list (map (\<lambda>p. findall_count p text) ethos_patterns);
          pathos = sum_list (map (\<lambda>p. findall_count p text) pathos_patterns);
          logos = sum_list (map (\<lambda>p. findall_count p text) logos_patterns)
      in (ethos, pathos, logos))"

definition detect_boundary_setting :: "string \<Rightarrow> nat \<times> nat \<times> nat" where
  "detect_boundary_setting text =
     (let direct_no =
            findall_count (phrase [''No'', ''I'm not available'', ''I can't'', ''I won't'']) text;
          apologies = findall_count (phrase [''sorry'', ''apologize'', ''apologies'']) text;
          justifications =
            findall_count (phrase [''because'', ''since'', ''as'', ''due to'']) text
      in (direct_no, apologies, justifications))"

subsection \<open>Scores\<close>

text \<open>
  Lines 123 to 125 of \<^verbatim>\<open>score_clarity\<close>: the test that decides the passive voice
  penalty. The quotient of the two counts is a Python float; it is modelled as
  the exact quotient.
\<close>

definition passive_penalised :: "string \<Rightarrow> bool" where
  "passive_penalised text =
     (let passive_count = detect_passive_voice text;
          total_sentences = length (re_split sentence_stops text)
      in total_sentences > 0 \<and> real passive_count / real total_sentences > 0.3)"

text \<open>
  The patterns that the scoring functions search for: the structure markers
  of \<^verbatim>\<open>score_clarity\<close>, the call to action of \<^verbatim>\<open>score_persuasion\<close> and the offer of
  an alternative of \<^verbatim>\<open>score_boundary_setting\<close>.
\<close>

definition structure_pattern :: regex where
  "structure_pattern =
     phrase [''First'', ''Second'', ''Therefore'', ''In summary'', ''Specifically'']"

definition call_to_action_pattern :: regex where
  "call_to_action_pattern =
     phrase [''Please'', ''I need'', ''Approve'', ''Let's'', ''We should'']"

definition alternative_pattern :: regex where
  "alternative_pattern = phrase [''instead'', ''alternatively'', ''I can'', ''available'']"

definition score_clarity :: "string \<Rightarrow> int" where
  "score_clarity text =
     (let score = 10;
          avg_sentence_len = average_sentence_length text;
          score = (if avg_sentence_len > 25 then score - 2
                   else if avg_sentence_len > 20 then score - 1 else score);
          score = (if passive_penalised text then score - 2 else score);
          score = (if re_search structure_pattern text then score else score - 1);
          sentences = re_split sentence_stops text;
          long_sentences = filter (\<lambda>s. length (py_split s) > 30) sentences;
          score = score - int (length long_sentences)
      in max 0 (min 10 score))"

definition score_vocal_control :: "string \<Rightarrow> int" where
  "score_vocal_control text =
     (let score = 10;
          filler_count = int (count_filler_words text);
          score = score - min filler_count 10
      in max 0 (min 10 score))"

definition score_presence :: "string \<Rightarrow> int" where
  "score_presence text =
     (let score = 10;
          weak_count = int (detect_weak_language text);
          score = score - min (weak_count * 2) 8;
          strong_count = int (detect_strong_markers text);
          score = score + min strong_count 3
      in max 0 (min 10 score))"

definition score_persuasion :: "string \<Rightarrow> int" where
  "score_persuasion text =
     (case detect_rhetoric_elements text of
        (ethos, pathos, logos) \<Rightarrow>
          let score = 0;
              score = score + min (int ethos) 3;
              score = score + min (int pathos) 3;
              score = score + min (int logos) 3;
              score = (if re_search call_to_action_pattern text then score + 1 else score)
          in max 0 (min 10 score))"

definition score_boundary_setting :: "string \<Rightarrow> int" where
  "score_boundary_setting text =
     (case detect_boundary_setting text of
        (direct_no, apologies, justifications) \<Rightarrow>
          let score = 0;
              score = (if direct_no > 0 then score + 5 else score);
              score = (if apologies > 0 then score - 5 else score);
              word_count = count_words text;
              score = (if word_count > 0 \<and> justifications > 2 then score - 2 else score);
              score = (if re_search alternative_pattern text then score + 2 else score)
          in max 0 (min 10 score))"

subsection \<open>The wording of the specification, for comparison\<close>

text \<open>
  Section 4.2 of the specification gives each score as a start value plus and
  minus its terms, clamped to the interval from 0 to 10 once, at the end. The
  following are the sums of the terms before the clamp.
\<close>

definition clamp :: "int \<Rightarrow> int" where
  "clamp x = max 0 (min 10 x)"

definition clarity_terms :: "string \<Rightarrow> int" where
  "clarity_terms text =
     10
     - (if average_sentence_length text > 25 then 2
        else if average_sentence_length text > 20 then 1 else 0)
     - (if passive_penalised text then 2 else 0)
     - (if re_search structure_pattern text then 0 else 1)
     - int (length (filter (\<lambda>s. length (py_split s) > 30) (re_split sentence_stops text)))"

definition vocal_control_terms :: "string \<Rightarrow> int" where
  "vocal_control_terms text = 10 - min (int (count_filler_words text)) 10"

definition presence_terms :: "string \<Rightarrow> int" where
  "presence_terms text =
     10 - min (int (detect_weak_language text) * 2) 8
        + min (int (detect_strong_markers text)) 3"

definition persuasion_terms :: "string \<Rightarrow> int" where
  "persuasion_terms text =
     (case detect_rhetoric_elements text of
        (ethos, pathos, logos) \<Rightarrow>
          min (int ethos) 3 + min (int pathos) 3 + min (int logos) 3
          + (if re_search call_to_action_pattern text then 1 else 0))"

definition boundary_terms :: "string \<Rightarrow> int" where
  "boundary_terms text =
     (case detect_boundary_setting text of
        (direct_no, apologies, justifications) \<Rightarrow>
          (if direct_no > 0 then 5 else 0)
          - (if apologies > 0 then 5 else 0)
          - (if count_words text > 0 \<and> justifications > 2 then 2 else 0)
          + (if re_search alternative_pattern text then 2 else 0))"

text \<open>
  Section 4.1 of the specification describes \<open>filler_count\<close> as the sum, over the
  filler vocabulary, of the case-insensitive occurrences of each filler in the
  text: text and filler are both compared up to case.
\<close>

definition case_insensitive_count :: "string \<Rightarrow> string \<Rightarrow> nat" where
  "case_insensitive_count text sub = str_count (lower text) (lower sub)"

definition filler_count_spec :: "string \<Rightarrow> nat" where
  "filler_count_spec text = sum_list (map (case_insensitive_count text) fillers)"

text \<open>
  Section 4.2 of the specification applies the passive voice penalty when the
  number of passive matches divided by the number of sentences exceeds 0.3,
  sentences being the stripped, non-empty pieces of section 4.1.
\<close>

definition passive_penalised_spec :: "string \<Rightarrow> bool" where
  "passive_penalised_spec text =
     (let total_sentence_count = length (sentences_of text)
      in total_sentence_count > 0
         \<and> real (detect_passive_voice text) / real total_sentence_count > 0.3)"

subsection \<open>Concrete texts\<close>

definition refusal :: string where
  "refusal = ''No, I can't make it. I have another commitment.''"

text \<open>
  The refusal as its words, \<^verbatim>\<open>' '.join(words)\<close>, and the text in which a word is
  put before word \<open>j\<close> of the list (after the last word when \<open>j\<close> is the length).
\<close>

definition refusal_words :: "string list" where
  "refusal_words =
     [''No,'', ''I'', ''can't'', ''make'', ''it.'', ''I'', ''have'', ''another'',
      ''commitment.'']"

fun join_words :: "string list \<Rightarrow> string" where
  "join_words [] = []"
| "join_words [w] = w"
| "join_words (w # v # ws) = w @ '' '' @ join_words (v # ws)"

definition with_word_at :: "nat \<Rightarrow> string \<Rightarrow> string list \<Rightarrow> string" where
  "with_word_at j w ws = join_words (take j ws @ [w] @ drop j ws)"

text \<open>
  The score of the refusal with \<^verbatim>\<open>sorry\<close> put before word \<open>j\<close>: 0 between \<^verbatim>\<open>I\<close> and
  \<^verbatim>\<open>can't\<close>, 2 elsewhere.
\<close>

definition sorry_before_word :: "nat \<Rightarrow> bool" where
  "sorry_before_word j =
     (score_boundary_setting (with_word_at j ''sorry'' refusal_words)
      = (if j = 2 then 0 else 2))"

text \<open>
  The text with a string inserted before character \<open>i\<close>, and the score of the
  refusal with \<^verbatim>\<open>sorry\<close>, a space on each side, inserted before character \<open>i\<close>:
  0 inside \<^verbatim>\<open>I can\<close>, 2 elsewhere.
\<close>

definition insert_at :: "nat \<Rightarrow> string \<Rightarrow> string \<Rightarrow> string" where
  "insert_at i w text = take i text @ w @ drop i text"

definition sorry_before_char :: "nat \<Rightarrow> bool" where
  "sorry_before_char i =
     (score_boundary_setting (insert_at i '' sorry '' refusal)
      = (if 4 < i \<and> i < 9 then 0 else 2))"

definition painted_door :: string where
  "painted_door = ''The door was painted. I like it. Thanks.''"

section \<open>Properties of the training state\<close>

subsection \<open>One call of \<^verbatim>\<open>update_dimension\<close>\<close>

lemma load_state_dimensions: "dimensions (load_state t st) = dimensions (load_state [] st)"
  by (simp add: load_state_def split: option.splits)

lemma load_state_points: "points (load_state t st) = points (load_state [] st)"
  by (simp add: load_state_def split: option.splits)

lemma load_save: "load_state t (save_state t' s) = s\<lparr>last_updated := t'\<rparr>"
  by (simp add: load_state_def save_state_def)

lemma update_unknown:
  "dim_entry st d = None \<Longrightarrow>
   update_dimension t1 t2 st d score m = (Inl (UnknownDimension d), st)"
  using load_state_dimensions [of t1 st]
  by (simp add: update_dimension_def dim_entry_def)

lemma update_known:
  assumes "dim_entry st d = Some ds"
  shows "update_dimension t1 t2 st d score m =
     (Inr \<lparr>rep_dimension = d, rep_score = score,
           rep_baseline = new_baseline ds score m,
           rep_baseline_established = (baseline ds = None \<and> threshold_of m \<le> samples ds + 1),
           rep_samples = samples ds + 1,
           rep_points_earned = earned (new_baseline ds score m) score,
           rep_total_points = stored_points st + earned (new_baseline ds score m) score\<rparr>,
      Some ((load_state t1 st)\<lparr>dimensions := (dimensions (load_state t1 st))
               (d \<mapsto> ds\<lparr>current := score, samples := samples ds + 1, baseline := new_baseline ds score m\<rparr>),
             points := stored_points st + earned (new_baseline ds score m) score,
             last_updated := t2\<rparr>))"
  using assms load_state_dimensions [of t1 st] load_state_points [of t1 st]
  by (simp add: update_dimension_def dim_entry_def stored_points_def Let_def
      new_baseline_def earned_def save_state_def split: option.splits)


lemma update_known_entry:
  assumes "dim_entry st d = Some ds"
  shows "dim_entry (snd (update_dimension t1 t2 st d score m)) d' =
     (if d' = d then Some (ds\<lparr>current := score, samples := samples ds + 1,
                                baseline := new_baseline ds score m\<rparr>)
      else dim_entry st d')"
  using load_state_dimensions [of t1 st]
  by (simp add: update_known [OF assms] dim_entry_def load_state_def)


lemma py_int_nonneg: "0 \<le> x \<Longrightarrow> py_int x = \<lfloor>x\<rfloor>"
  by (simp add: py_int_def)

text \<open>Rounding keeps the sign, and zero is a float.\<close>

lemma pow2_pos: "0 < pow2 k"
  by (simp add: pow2_def)



lemma fl_round_zero: "fl_round 0 = 0"
  by (simp add: fl_round_def round_half_even_def)

lemma fl_sub_self: "fl_sub x x = 0"
  by (simp add: fl_sub_def fl_round_zero)

text \<open>
  The model of rounding is that of binary64: from the smallest normal number
  on, \<open>float_exponent x\<close> is the exponent of the binade of \<open>x\<close>, and the rounded
  value is a multiple of the spacing of the floats of that binade at most half
  a spacing away from \<open>x\<close>.
\<close>

lemma pow2_add1: "pow2 (k + 1) = 2 * pow2 k"
proof (cases "0 \<le> k")
  case True
  then show ?thesis by (simp add: pow2_def nat_add_distrib)
next
  case False
  then have "nat (- k) = Suc (nat (- (k + 1)))" by simp
  then show ?thesis using False by (simp add: pow2_def)
qed

lemma pow2_mono: "j \<le> k \<Longrightarrow> pow2 j \<le> pow2 k"
proof (induction "nat (k - j)" arbitrary: k)
  case 0
  then show ?case by simp
next
  case (Suc n)
  then have "n = nat ((k - 1) - j)" and "j \<le> k - 1" by simp_all
  then have "pow2 j \<le> pow2 (k - 1)" by (rule Suc.hyps(1))
  also have "\<dots> \<le> pow2 k"
    using pow2_add1 [of "k - 1"] pow2_pos [of "k - 1"] by simp
  finally show ?case .
qed

lemma float_exponent_bounds:
  assumes "pow2 (- 1022) \<le> \<bar>x\<bar>"
  shows "pow2 (float_exponent x) \<le> \<bar>x\<bar> \<and> \<bar>x\<bar> < pow2 (float_exponent x + 1)"
proof (cases "1 \<le> \<bar>x\<bar>")
  case True
  define n where "n = \<lfloor>\<bar>x\<bar>\<rfloor>"
  have n1: "1 \<le> n" using True by (simp add: n_def)
  then have b: "2 ^ nat (bitlen n - 1) \<le> n" "n < 2 ^ nat (bitlen n)"
    using bitlen_bounds [of n] by simp_all
  have bl: "1 \<le> bitlen n"
  proof (rule ccontr)
    assume "\<not> 1 \<le> bitlen n"
    then have "nat (bitlen n) = 0" by simp
    with b(2) n1 show False by simp
  qed
  have e: "float_exponent x = bitlen n - 1"
    using True bl by (simp add: float_exponent_def n_def)
  have lo: "pow2 (bitlen n - 1) \<le> \<bar>x\<bar>"
  proof -
    have "pow2 (bitlen n - 1) = of_int (2 ^ nat (bitlen n - 1))"
      using bl by (simp add: pow2_def)
    also have "\<dots> \<le> of_int n" using b(1) by (simp only: of_int_le_iff)
    also have "\<dots> \<le> \<bar>x\<bar>" by (simp add: n_def)
    finally show ?thesis .
  qed
  have hi: "\<bar>x\<bar> < pow2 (bitlen n - 1 + 1)"
  proof -
    have "\<bar>x\<bar> < of_int (n + 1)" by (simp add: n_def)
    also have "\<dots> \<le> of_int (2 ^ nat (bitlen n))"
      using b(2) by (simp only: of_int_le_iff)
    also have "\<dots> = pow2 (bitlen n - 1 + 1)"
      using bl by (simp add: pow2_def)
    finally show ?thesis .
  qed
  from lo hi e show ?thesis by simp
next
  case False
  have xpos: "0 < \<bar>x\<bar>"
    using assms pow2_pos [of "- 1022"] by linarith
  define y where "y = 1 / \<bar>x\<bar>"
  have y1: "1 < y" using False xpos by (simp add: y_def)
  define m where "m = \<lceil>y\<rceil> - 1"
  have m1: "1 \<le> m" using y1 by (simp add: m_def)
  then have b: "2 ^ nat (bitlen m - 1) \<le> m" "m < 2 ^ nat (bitlen m)"
    using bitlen_bounds [of m] by simp_all
  have bl: "1 \<le> bitlen m"
  proof (rule ccontr)
    assume "\<not> 1 \<le> bitlen m"
    then have "nat (bitlen m) = 0" by simp
    with b(2) m1 show False by simp
  qed
  define k where "k = nat (bitlen m)"
  have k: "bitlen m = int k" "0 < k" using bl by (simp_all add: k_def)
  have ylo: "2 ^ (k - 1) < y"
  proof -
    have "(2::real) ^ (k - 1) = of_int (2 ^ nat (bitlen m - 1))"
      using k by (simp add: nat_diff_distrib)
    also have "\<dots> \<le> of_int m" using b(1) by (simp only: of_int_le_iff)
    also have "\<dots> < y" by (simp add: m_def) linarith
    finally show ?thesis .
  qed
  have yhi: "y \<le> 2 ^ k"
  proof -
    have "y \<le> of_int (m + 1)" by (simp add: m_def)
    also have "\<dots> \<le> of_int (2 ^ nat (bitlen m))"
      using b(2) by (simp only: of_int_le_iff)
    also have "\<dots> = 2 ^ k" by (simp add: k_def)
    finally show ?thesis .
  qed
  have lo: "pow2 (- int k) \<le> \<bar>x\<bar>"
  proof -
    have "1 / 2 ^ k \<le> 1 / y"
      using yhi y1 by (simp add: frac_le)
    then show ?thesis using xpos k(2) by (simp add: pow2_def y_def)
  qed
  have hi: "\<bar>x\<bar> < pow2 (- int k + 1)"
  proof -
    have "1 / y < 1 / 2 ^ (k - 1)"
      using ylo by (simp add: frac_less2)
    moreover have "pow2 (- int k + 1) = 1 / 2 ^ (k - 1)"
      using k(2) by (cases k) (simp_all add: pow2_def)
    ultimately show ?thesis using xpos by (simp add: y_def)
  qed
  have "- 1022 < - int k + 1"
  proof (rule ccontr)
    assume "\<not> - 1022 < - int k + 1"
    then have "pow2 (- int k + 1) \<le> pow2 (- 1022)" by (intro pow2_mono) simp
    with hi assms show False by linarith
  qed
  then have e: "float_exponent x = - int k"
    using False k by (simp add: float_exponent_def m_def y_def)
  from lo hi e show ?thesis by simp
qed


lemma round_half_even_nearest: "\<bar>y - of_int (round_half_even y)\<bar> \<le> 1 / 2"
proof -
  have "of_int \<lfloor>y\<rfloor> \<le> y" "y < of_int \<lfloor>y\<rfloor> + 1" by linarith+
  then show ?thesis
    by (auto simp: round_half_even_def Let_def abs_le_iff)
qed

lemma fl_round_nearest:
  "\<bar>x - fl_round x\<bar> \<le> pow2 (float_exponent x - 52) / 2"
proof -
  let ?u = "pow2 (float_exponent x - 52)"
  have u: "0 < ?u" by (rule pow2_pos)
  have "\<bar>x / ?u - of_int (round_half_even (x / ?u))\<bar> \<le> 1 / 2"
    by (rule round_half_even_nearest)
  then have "\<bar>x / ?u - of_int (round_half_even (x / ?u))\<bar> * ?u \<le> 1 / 2 * ?u"
    using u by (simp only: mult_le_cancel_right_pos)
  moreover have "\<bar>x / ?u - of_int (round_half_even (x / ?u))\<bar> * ?u
      = \<bar>x - of_int (round_half_even (x / ?u)) * ?u\<bar>"
  proof -
    have "\<bar>x / ?u - of_int (round_half_even (x / ?u))\<bar> * ?u
        = \<bar>(x / ?u - of_int (round_half_even (x / ?u))) * ?u\<bar>"
      using u by (simp add: abs_mult)
    also have "(x / ?u - of_int (round_half_even (x / ?u))) * ?u
        = x - of_int (round_half_even (x / ?u)) * ?u"
      using u by (simp add: algebra_simps)
    finally show ?thesis .
  qed
  ultimately show ?thesis by (simp add: fl_round_def Let_def)
qed

lemma float_spacing_le: "pow2 (float_exponent x - 52) \<le> max 1 \<bar>x\<bar>"
proof (cases "1 \<le> \<bar>x\<bar>")
  case True
  have "pow2 (- 1022) \<le> pow2 0" by (rule pow2_mono) simp
  then have "pow2 (- 1022) \<le> \<bar>x\<bar>" using True by (simp add: pow2_def)
  then have "pow2 (float_exponent x) \<le> \<bar>x\<bar>"
    using float_exponent_bounds by blast
  moreover have "pow2 (float_exponent x - 52) \<le> pow2 (float_exponent x)"
    by (rule pow2_mono) simp
  ultimately show ?thesis by simp
next
  case False
  have "0 \<le> bitlen (\<lceil>1 / \<bar>x\<bar>\<rceil> - 1)" by (rule bitlen_nonneg)
  then have "float_exponent x \<le> 0"
    using False by (simp add: float_exponent_def)
  then have "pow2 (float_exponent x - 52) \<le> pow2 0" by (intro pow2_mono) simp
  then show ?thesis by (simp add: pow2_def)
qed

lemma fl_round_bound: "\<bar>fl_round x\<bar> \<le> \<bar>x\<bar> + (1 + \<bar>x\<bar>) / 2"
proof -
  have "max 1 \<bar>x\<bar> \<le> 1 + \<bar>x\<bar>" by simp
  then have "pow2 (float_exponent x - 52) \<le> 1 + \<bar>x\<bar>"
    using float_spacing_le [of x] by linarith
  moreover have "\<bar>fl_round x\<bar> \<le> \<bar>x\<bar> + \<bar>x - fl_round x\<bar>"
    by linarith
  ultimately show ?thesis
    using fl_round_nearest [of x] by argo
qed

text \<open>
  Scores in the documented range stay far below the largest float: neither
  the subtraction nor the multiplication of \<^verbatim>\<open>update_dimension\<close> overflows on them.
\<close>

lemma in_range_no_overflow:
  assumes "in_score_range x" and "in_score_range y"
  shows "\<bar>fl_sub x y\<bar> \<le> 16 \<and> \<bar>fl_mul (fl_sub x y) 2\<bar> \<le> 64"
proof -
  have d: "\<bar>x - y\<bar> \<le> 10" using assms by (simp add: in_score_range_def abs_le_iff)
  have 1: "\<bar>fl_sub x y\<bar> \<le> 16"
    using fl_round_bound [of "x - y"] d unfolding fl_sub_def by argo
  have 2: "\<bar>fl_mul (fl_sub x y) 2\<bar> \<le> 64"
    using fl_round_bound [of "fl_sub x y * 2"] 1 unfolding fl_mul_def by argo
  from 1 2 show ?thesis by simp
qed








lemma threshold_of_cases:
  "threshold_of m =
     (if m = ''email-formal'' \<or> m = ''email-casual'' \<or> m = ''conversation'' then 10
      else if m = ''slack'' \<or> m = ''sms'' then 15
      else if m = ''presentation'' then 5
      else 10)"
  by (simp add: threshold_of_def baseline_threshold_def)

lemma threshold_of_pos: "0 < threshold_of m"
  by (simp add: threshold_of_cases)




text \<open>
  Claim C9. On a document whose keys are the five fixed names, a call with any
  other dimension returns the error dictionary and leaves the state file
  exactly as it was: nothing is written, so no sample, score, point or time
  stamp changes, and a missing file stays missing.
\<close>

theorem unknown_dimension_rejected:
  assumes "wf_store st" and "d \<notin> set dimension_names"
  shows "update_dimension t1 t2 st d score m = (Inl (UnknownDimension d), st)"
proof -
  have "d \<notin> dom (dimensions (load_state [] st))"
    using assms by (simp add: wf_store_def)
  then have "dim_entry st d = None"
    by (auto simp: dim_entry_def)
  then show ?thesis by (rule update_unknown)
qed

lemma wf_store_fresh: "wf_store None"
  by (auto simp: wf_store_def load_state_def dimension_names_def dom_def)

theorem unknown_dimension_rejected_witness:
  "wf_store None \<and> ''charisma'' \<notin> set dimension_names
   \<and> update_dimension ''t0'' ''t1'' None ''charisma'' 7 ''slack''
       = (Inl (UnknownDimension ''charisma''), None)"
proof -
  have n: "''charisma'' \<notin> set dimension_names" by (simp add: dimension_names_def)
  show ?thesis
    using wf_store_fresh n unknown_dimension_rejected [OF wf_store_fresh n] by simp
qed

lemma wf_store_update: 
  assumes "wf_store st"
  shows "wf_store (snd (update_dimension t1 t2 st d score m))"
proof (cases "dim_entry st d")
  case None
  then show ?thesis using assms by (simp add: update_unknown)
next
  case (Some ds)
  have "d \<in> dom (dimensions (load_state [] st))"
    using Some by (auto simp: dim_entry_def)
  then have "insert d (dom (dimensions (load_state [] st))) = dom (dimensions (load_state [] st))"
    by auto
  then show ?thesis
    using assms load_state_dimensions [of t1 st]
    by (simp add: update_known [OF Some] wf_store_def load_state_def)
qed

text \<open>
  Claim C10. The call that establishes a baseline earns no points, whatever the
  score and the modality: the baseline is that call's score, so the improvement
  computed in the same call is zero.
\<close>

theorem establishing_call_earns_nothing:
  assumes "update_dimension t1 t2 st d score m = (Inr rep, st')"
    and "rep_baseline_established rep"
  shows "rep_points_earned rep = 0 \<and> rep_baseline rep = Some score"
proof (cases "dim_entry st d")
  case None
  then show ?thesis using assms by (simp add: update_unknown)
next
  case (Some ds)
  then show ?thesis
    using assms by (auto simp: update_known [OF Some] new_baseline_def earned_def fl_sub_self)
qed


theorem establishing_call_earns_nothing_witness:
  "\<exists>rep st'. update_dimension [] [] sample_store ''presence'' 9 ''presentation'' = (Inr rep, st')
      \<and> rep_baseline_established rep
      \<and> rep_points_earned rep = 0 \<and> rep_baseline rep = Some 9"
proof -
  have h: "dim_entry sample_store ''presence'' = Some \<lparr>current = 7, baseline = None, samples = 4\<rparr>"
    by (simp add: dim_entry_def sample_store_def load_state_def)
  obtain rep st' where
    u: "update_dimension [] [] sample_store ''presence'' 9 ''presentation'' = (Inr rep, st')"
    and e: "rep_baseline_established rep"
    by (simp add: update_known [OF h] threshold_of_cases)
  from establishing_call_earns_nothing [OF u e] u e show ?thesis by simp
qed

lemma update_other_entry:
  assumes "d' \<noteq> d"
  shows "dim_entry (snd (update_dimension t1 t2 st d' score m)) d = dim_entry st d"
proof (cases "dim_entry st d'")
  case None
  then show ?thesis by (simp add: update_unknown)
next
  case (Some ds')
  show ?thesis using assms by (simp add: update_known_entry [OF Some])
qed

lemma run_updates_Cons:
  "fst (run_updates st (c # calls)) =
     fst (update_dimension (at_load c) (at_save c) st (call_dimension c) (call_score c) (call_modality c))
     # fst (run_updates
         (snd (update_dimension (at_load c) (at_save c) st (call_dimension c) (call_score c) (call_modality c)))
         calls)"
  "snd (run_updates st (c # calls)) =
     snd (run_updates
         (snd (update_dimension (at_load c) (at_save c) st (call_dimension c) (call_score c) (call_modality c)))
         calls)"
  by (simp_all add: split_beta)

lemma run_updates_Nil: "run_updates st [] = ([], st)"
  by simp

text \<open>
  Every document reached from the default one by \<^verbatim>\<open>update\<close> calls is well formed.
\<close>

lemma wf_store_run_updates: "wf_store st \<Longrightarrow> wf_store (snd (run_updates st calls))"
proof (induction calls arbitrary: st)
  case Nil
  then show ?case by simp
next
  case (Cons c calls)
  show ?case
    unfolding run_updates_Cons
    by (rule Cons.IH) (rule wf_store_update [OF Cons.prems])
qed

lemma calls_on_simps:
  "calls_on d [] = 0"
  "calls_on d (c # calls) = (if call_dimension c = d then 1 else 0) + calls_on d calls"
  by (simp_all add: calls_on_def)

lemma run_updates_entry:
  assumes "dim_entry st d = Some ds"
  shows "\<exists>ds'. dim_entry (snd (run_updates st calls)) d = Some ds'
           \<and> samples ds' = samples ds + calls_on d calls
           \<and> (case baseline ds of None \<Rightarrow> True | Some b \<Rightarrow> baseline ds' = Some b)"
  using assms
proof (induction calls arbitrary: st ds)
  case Nil
  then show ?case by (simp add: calls_on_simps split: option.splits)
next
  case (Cons c calls)
  let ?st1 = "snd (update_dimension (at_load c) (at_save c) st (call_dimension c)
                    (call_score c) (call_modality c))"
  show ?case
  proof (cases "call_dimension c = d")
    case True
    let ?ds1 = "ds\<lparr>current := call_score c, samples := samples ds + 1,
                  baseline := new_baseline ds (call_score c) (call_modality c)\<rparr>"
    have e: "dim_entry ?st1 d = Some ?ds1"
      using Cons.prems True by (simp add: update_known_entry)
    from Cons.IH [OF e] obtain ds' where
      a: "dim_entry (snd (run_updates ?st1 calls)) d = Some ds'"
      and b: "samples ds' = samples ?ds1 + calls_on d calls"
      and c: "(case baseline ?ds1 of None \<Rightarrow> True | Some b \<Rightarrow> baseline ds' = Some b)"
      by blast
    have "(case baseline ds of None \<Rightarrow> True | Some b \<Rightarrow> baseline ds' = Some b)"
      using c by (simp add: new_baseline_def split: option.splits if_splits)
    then show ?thesis
      using a b True by (simp add: run_updates_Cons calls_on_simps del: run_updates.simps)
  next
    case False
    then have e: "dim_entry ?st1 d = Some ds"
      using Cons.prems by (simp add: update_other_entry)
    from Cons.IH [OF e] show ?thesis
      using False by (simp add: run_updates_Cons calls_on_simps del: run_updates.simps)
  qed
qed

text \<open>
  Claim C4. Over any sequence of calls, the sample count of a dimension grows by
  exactly one for each call on that dimension (so it never decreases), and a
  baseline that has a value keeps that value: no later call resets it to
  \<open>None\<close> or changes it.
\<close>

theorem samples_grow_baseline_fixed:
  assumes "dim_entry st d = Some ds" and "run_updates st calls = (rs, st')"
  shows "\<exists>ds'. dim_entry st' d = Some ds'
           \<and> samples ds' = samples ds + int (length (filter (\<lambda>c. call_dimension c = d) calls))
           \<and> samples ds \<le> samples ds'
           \<and> (case baseline ds of None \<Rightarrow> True | Some b \<Rightarrow> baseline ds' = Some b)"
  using run_updates_entry [OF assms(1), of calls] assms(2)
  by (auto simp: calls_on_def)

lemma run_updates_established:
  assumes "dim_entry st d = Some ds"
    and "(baseline ds = None) = (samples ds < threshold_of m)"
    and "list_all (\<lambda>c. call_modality c = m) calls"
    and "k < length calls" and "call_dimension (calls ! k) = d"
  shows "\<exists>rep. fst (run_updates st calls) ! k = Inr rep
           \<and> rep_samples rep = samples ds + calls_on d (take (Suc k) calls)
           \<and> rep_baseline_established rep = (rep_samples rep = threshold_of m)
           \<and> (rep_baseline_established rep \<longrightarrow>
                 rep_baseline rep = Some (call_score (calls ! k)))"
  using assms
proof (induction calls arbitrary: st ds k)
  case Nil
  then show ?case by simp
next
  case (Cons c calls)
  let ?st1 = "snd (update_dimension (at_load c) (at_save c) st (call_dimension c)
                    (call_score c) (call_modality c))"
  have m: "call_modality c = m" and ms: "list_all (\<lambda>c. call_modality c = m) calls"
    using Cons.prems(3) by simp_all
  show ?case
  proof (cases k)
    case 0
    then have cd: "call_dimension c = d" using Cons.prems(5) by simp
    show ?thesis
      using Cons.prems(1,2) 0 cd m
      by (auto simp: run_updates_Cons update_known calls_on_simps new_baseline_def simp del: run_updates.simps)
  next
    case (Suc k')
    then have k': "k' < length calls" and dk: "call_dimension (calls ! k') = d"
      using Cons.prems(4,5) by simp_all
    show ?thesis
    proof (cases "call_dimension c = d")
      case True
      let ?ds1 = "ds\<lparr>current := call_score c, samples := samples ds + 1,
                    baseline := new_baseline ds (call_score c) m\<rparr>"
      have e: "dim_entry ?st1 d = Some ?ds1"
        using Cons.prems(1) True m by (simp add: update_known_entry)
      have i: "(baseline ?ds1 = None) = (samples ?ds1 < threshold_of m)"
        using Cons.prems(2) by (auto simp: new_baseline_def)
      from Cons.IH [OF e i ms k' dk] obtain rep where
        r: "fst (run_updates ?st1 calls) ! k' = Inr rep"
        and s: "rep_samples rep = samples ?ds1 + calls_on d (take (Suc k') calls)"
        and b: "rep_baseline_established rep = (rep_samples rep = threshold_of m)"
        and v: "rep_baseline_established rep \<longrightarrow>
                 rep_baseline rep = Some (call_score (calls ! k'))"
        by blast
      show ?thesis
        using r s b v True Suc by (simp add: run_updates_Cons calls_on_simps del: run_updates.simps)
    next
      case False
      then have e: "dim_entry ?st1 d = Some ds"
        using Cons.prems(1) by (simp add: update_other_entry)
      from Cons.IH [OF e Cons.prems(2) ms k' dk] show ?thesis
        using False Suc by (auto simp: run_updates_Cons calls_on_simps simp del: run_updates.simps)
    qed
  qed
qed



text \<open>
  Claim C2. Take a dimension that has no baseline and fewer samples than the
  threshold of the modality (a fresh dimension has none), and any sequence of
  calls with that modality, on this and on other dimensions. A call on the
  dimension reports \<open>baseline_established\<close> exactly when its sample count
  equals the threshold, that is on the call where the count first reaches it;
  the baseline reported by that call is the score passed in that call. The
  thresholds are 10 for email-formal, email-casual and conversation, 15 for
  slack and sms, 5 for presentation, and 10 for every other modality.
\<close>

theorem baseline_established_at_threshold:
  assumes "dim_entry st d = Some ds"
    and "baseline ds = None" and "samples ds < threshold_of m"
    and "list_all (\<lambda>c. call_modality c = m) calls"
    and "k < length calls" and "call_dimension (calls ! k) = d"
  shows "\<exists>rep. fst (run_updates st calls) ! k = Inr rep
           \<and> rep_samples rep =
               samples ds
               + int (length (filter (\<lambda>c. call_dimension c = d) (take (Suc k) calls)))
           \<and> rep_baseline_established rep = (rep_samples rep = threshold_of m)
           \<and> (rep_baseline_established rep \<longrightarrow>
                 rep_baseline rep = Some (call_score (calls ! k)))
           \<and> threshold_of m =
               (if m = ''email-formal'' \<or> m = ''email-casual'' \<or> m = ''conversation''
                then 10
                else if m = ''slack'' \<or> m = ''sms'' then 15
                else if m = ''presentation'' then 5
                else 10)"
proof -
  have i: "(baseline ds = None) = (samples ds < threshold_of m)"
    using assms(2,3) by simp
  from run_updates_established [OF assms(1) i assms(4,5,6)] threshold_of_cases [of m]
  show ?thesis
    unfolding calls_on_def by blast
qed

theorem baseline_established_at_threshold_witness:
  "dim_entry None ''clarity'' = Some fresh_dim
   \<and> baseline fresh_dim = None \<and> samples fresh_dim < threshold_of ''presentation''
   \<and> list_all (\<lambda>c. call_modality c = ''presentation'') sample_calls
   \<and> (5::nat) < length sample_calls \<and> call_dimension (sample_calls ! 5) = ''clarity''
   \<and> (\<exists>rep. fst (run_updates None sample_calls) ! 5 = Inr rep
         \<and> rep_samples rep = 5 \<and> rep_baseline_established rep
         \<and> rep_baseline rep = Some 7)"
proof -
  have h1: "dim_entry None ''clarity'' = Some fresh_dim"
    by (simp add: dim_entry_def load_state_def)
  have h2: "baseline fresh_dim = None" by (simp add: fresh_dim_def)
  have h3: "samples fresh_dim < threshold_of ''presentation''"
    by (simp add: fresh_dim_def threshold_of_cases)
  have h4: "list_all (\<lambda>c. call_modality c = ''presentation'') sample_calls"
    by (simp add: sample_calls_def call_on_def)
  have h5: "5 < length sample_calls" by (simp add: sample_calls_def)
  have h6: "call_dimension (sample_calls ! 5) = ''clarity''"
    by (simp add: sample_calls_def call_on_def)
  have n: "int (length (filter (\<lambda>c. call_dimension c = ''clarity'') (take (Suc 5) sample_calls))) = 5"
    by (simp add: sample_calls_def call_on_def)
  have s: "call_score (sample_calls ! 5) = 7"
    by (simp add: sample_calls_def call_on_def)
  from baseline_established_at_threshold [OF h1 h2 h3 h4 h5 h6]
  have "\<exists>rep. fst (run_updates None sample_calls) ! 5 = Inr rep
         \<and> rep_samples rep = 5 \<and> rep_baseline_established rep
         \<and> rep_baseline rep = Some 7"
    unfolding n s by (auto simp: fresh_dim_def)
  with h1 h2 h3 h4 h5 h6 show ?thesis by blast
qed

theorem samples_grow_baseline_fixed_witness:
  "dim_entry sample_store ''clarity'' = Some \<lparr>current = 4, baseline = Some 4, samples = 10\<rparr>
   \<and> (\<exists>ds'. dim_entry (snd (run_updates sample_store sample_calls)) ''clarity'' = Some ds'
         \<and> samples ds' = 16 \<and> baseline ds' = Some 4)"
proof -
  have h: "dim_entry sample_store ''clarity'' = Some \<lparr>current = 4, baseline = Some 4, samples = 10\<rparr>"
    by (simp add: dim_entry_def sample_store_def load_state_def)
  have r: "run_updates sample_store sample_calls =
      (fst (run_updates sample_store sample_calls), snd (run_updates sample_store sample_calls))"
    by simp
  have n: "int (length (filter (\<lambda>c. call_dimension c = ''clarity'') sample_calls)) = 6"
    by (simp add: sample_calls_def call_on_def)
  from samples_grow_baseline_fixed [OF h r]
  have "\<exists>ds'. dim_entry (snd (run_updates sample_store sample_calls)) ''clarity'' = Some ds'
         \<and> samples ds' = 16 \<and> baseline ds' = Some 4"
    unfolding n by auto
  with h show ?thesis by blast
qed

section \<open>Evaluation of the character tables\<close>

text \<open>
  The tables read off the bits of a character, for evaluation. Each equation
  is checked against the numeric definition on all 256 characters.
\<close>

lemma is_space_bits [code]:
  "is_space (Char b0 b1 b2 b3 b4 b5 b6 b7) =
     ((if b7 then (\<not> b6 \<and> (if b5 then (\<not> b4 \<and> (\<not> b3 \<and> (\<not> b2
       \<and> (\<not> b1 \<and> \<not> b0)))) else (\<not> b4 \<and> (\<not> b3 \<and> (b2
       \<and> (\<not> b1 \<and> b0)))))) else (\<not> b6 \<and> (if b5 then (\<not> b4 \<and>
       (\<not> b3 \<and> (\<not> b2 \<and> (\<not> b1 \<and> \<not> b0)))) else (if b4 then (b3
       \<and> b2) else (b3 \<and> (if b2 then \<not> b1 else (b1 \<or> b0))))))))"
  by (cases b0; cases b1; cases b2; cases b3; cases b4; cases b5; cases b6; cases b7;
      simp add: is_space_def)

lemma is_digit_bits [code]:
  "is_digit (Char b0 b1 b2 b3 b4 b5 b6 b7) =
     ((\<not> b7 \<and> (\<not> b6 \<and> (b5 \<and> (b4 \<and> (\<not> b3 \<or> (\<not> b2
       \<and> \<not> b1)))))))"
  by (cases b0; cases b1; cases b2; cases b3; cases b4; cases b5; cases b6; cases b7;
      simp add: is_digit_def)

lemma is_word_bits [code]:
  "is_word (Char b0 b1 b2 b3 b4 b5 b6 b7) =
     ((if b7 then (if b6 then (\<not> b4 \<or> (b3 \<or> (\<not> b2 \<or> (\<not> b1 \<or>
       \<not> b0)))) else (b5 \<and> (if b4 then (if b3 then (if b2 then (\<not> b1 \<or>
       \<not> b0) else (if b1 then \<not> b0 else b0)) else (if b2 then (\<not> b1 \<and> b0)
       else b1)) else (b3 \<and> (\<not> b2 \<and> (b1 \<and> \<not> b0)))))) else (if b6 then
       (if b5 then (if b4 then (\<not> b3 \<or> (\<not> b2 \<and> (\<not> b1 \<or> \<not> b0)))
       else (b3 \<or> (b2 \<or> (b1 \<or> b0)))) else (if b4 then (\<not> b3 \<or> (if b2 then
       (b1 \<and> b0) else (\<not> b1 \<or> \<not> b0))) else (b3 \<or> (b2 \<or> (b1 \<or>
       b0))))) else (b5 \<and> (b4 \<and> (\<not> b3 \<or> (\<not> b2 \<and> \<not> b1)))))))"
  by (cases b0; cases b1; cases b2; cases b3; cases b4; cases b5; cases b6; cases b7;
      simp add: is_word_def)

lemma is_upper_bits [code]:
  "is_upper (Char b0 b1 b2 b3 b4 b5 b6 b7) =
     ((if b7 then (b6 \<and> (\<not> b5 \<and> (\<not> b4 \<or> (\<not> b2 \<or> (\<not> b1
       \<or> \<not> b0))))) else (b6 \<and> (\<not> b5 \<and> (if b4 then (\<not> b3 \<or>
       (\<not> b2 \<and> (\<not> b1 \<or> \<not> b0))) else (b3 \<or> (b2 \<or> (b1 \<or>
       b0))))))))"
  by (cases b0; cases b1; cases b2; cases b3; cases b4; cases b5; cases b6; cases b7;
      simp add: is_upper_def)

lemma lower_char_bits [code]:
  "lower_char (Char b0 b1 b2 b3 b4 b5 b6 b7) =
     (if is_upper (Char b0 b1 b2 b3 b4 b5 b6 b7) then Char b0 b1 b2 b3 b4 True b6 b7
      else Char b0 b1 b2 b3 b4 b5 b6 b7)"
  by (cases b0; cases b1; cases b2; cases b3; cases b4; cases b5; cases b6; cases b7;
      simp add: lower_char_def is_upper_def char_of_def bit_0)

section \<open>Properties of the text analysis\<close>

subsection \<open>Scores\<close>

text \<open>
  Claim C6. For every text, the empty one included, each of the five scores is
  the sum of its terms clamped once, at the end, to the interval from 0 to 10,
  and so lies between 0 and 10.
\<close>

theorem scores_in_range:
  "score_clarity text = clamp (clarity_terms text)
   \<and> score_vocal_control text = clamp (vocal_control_terms text)
   \<and> score_presence text = clamp (presence_terms text)
   \<and> score_persuasion text = clamp (persuasion_terms text)
   \<and> score_boundary_setting text = clamp (boundary_terms text)
   \<and> 0 \<le> score_clarity text \<and> score_clarity text \<le> 10
   \<and> 0 \<le> score_vocal_control text \<and> score_vocal_control text \<le> 10
   \<and> 0 \<le> score_presence text \<and> score_presence text \<le> 10
   \<and> 0 \<le> score_persuasion text \<and> score_persuasion text \<le> 10
   \<and> 0 \<le> score_boundary_setting text \<and> score_boundary_setting text \<le> 10"
proof -
  have c: "0 \<le> clamp x \<and> clamp x \<le> 10" for x
    by (simp add: clamp_def)
  have 1: "score_clarity text = clamp (clarity_terms text)"
    by (simp add: score_clarity_def clarity_terms_def clamp_def Let_def)
  have 2: "score_vocal_control text = clamp (vocal_control_terms text)"
    by (simp add: score_vocal_control_def vocal_control_terms_def clamp_def Let_def)
  have 3: "score_presence text = clamp (presence_terms text)"
    by (simp add: score_presence_def presence_terms_def clamp_def Let_def)
  have 4: "score_persuasion text = clamp (persuasion_terms text)"
    by (simp add: score_persuasion_def persuasion_terms_def clamp_def Let_def
        split: prod.splits)
  have 5: "score_boundary_setting text = clamp (boundary_terms text)"
    by (simp add: score_boundary_setting_def boundary_terms_def clamp_def Let_def
        split: prod.splits)
  show ?thesis
    unfolding 1 2 3 4 5 using c by simp
qed

text \<open>
  Texts on which the clamp acts or the terms are not all zero: an apology with
  an alternative sums to \<open>-3\<close>, four strong markers sum to 13.
\<close>

lemma terms_examples:
  "boundary_terms ''sorry, instead'' = - 3"
  "presence_terms ''I will. I am. We must. First.'' = 13"
  "persuasion_terms ''Please consider the data because I have built it'' = 5"
  "clarity_terms ''First, we test.'' = 10"
  "vocal_control_terms ''um, like, maybe'' = 7"
  by code_simp+

theorem scores_in_range_witness:
  "score_boundary_setting ''sorry, instead'' = 0
   \<and> score_presence ''I will. I am. We must. First.'' = 10
   \<and> score_persuasion ''Please consider the data because I have built it'' = 5
   \<and> score_clarity ''First, we test.'' = 10
   \<and> score_vocal_control ''um, like, maybe'' = 7"
  using scores_in_range [of "''sorry, instead''"]
    scores_in_range [of "''I will. I am. We must. First.''"]
    scores_in_range [of "''Please consider the data because I have built it''"]
    scores_in_range [of "''First, we test.''"]
    scores_in_range [of "''um, like, maybe''"]
  unfolding terms_examples by (simp add: clamp_def)

text \<open>The scores of the empty text: no function fails on it.\<close>

lemma empty_text_scores:
  "score_clarity [] = 9 \<and> score_vocal_control [] = 10 \<and> score_presence [] = 10
   \<and> score_persuasion [] = 0 \<and> score_boundary_setting [] = 0"
  by code_simp

text \<open>
  Claim C7. The vocal control score is \<open>10 - min filler_count 10\<close>: a text with
  at least as many fillers as another never scores higher, and ten or more
  fillers give exactly 0.
\<close>

theorem vocal_control_monotone:
  "(count_filler_words a \<le> count_filler_words b \<longrightarrow>
      score_vocal_control b \<le> score_vocal_control a)
   \<and> (10 \<le> count_filler_words t \<longrightarrow> score_vocal_control t = 0)
   \<and> score_vocal_control t = 10 - int (min (count_filler_words t) 10)"
  by (auto simp: score_vocal_control_def Let_def min_def)

lemma filler_examples:
  "count_filler_words ''um'' = 1 \<and> count_filler_words ''um, uh'' = 2
   \<and> count_filler_words ''um um um um um um um um um um um'' = 11"
  by code_simp

theorem vocal_control_monotone_witness:
  "count_filler_words ''um'' \<le> count_filler_words ''um, uh''
   \<and> score_vocal_control ''um, uh'' \<le> score_vocal_control ''um''
   \<and> 10 \<le> count_filler_words ''um um um um um um um um um um um''
   \<and> score_vocal_control ''um um um um um um um um um um um'' = 0"
  using vocal_control_monotone
          [of "''um''" "''um, uh''" "''um um um um um um um um um um um''"]
        filler_examples
  by simp

subsection \<open>Fillers\<close>

text \<open>
  The text is lowered before the search and the fillers are not, so no
  character of the lowered text equals the capital letter that begins
  \<^verbatim>\<open>'I think'\<close> and \<^verbatim>\<open>'I guess'\<close>: these two entries are found in no text.
\<close>

lemma lower_char_not_capital_I: "lower_char c \<noteq> CHR ''I''"
proof (cases c)
  case (Char b0 b1 b2 b3 b4 b5 b6 b7)
  then show ?thesis
    by (cases b0; cases b1; cases b2; cases b3; cases b4; cases b5; cases b6; cases b7;
        simp add: lower_char_bits is_upper_bits)
qed

lemma count_from_capital_I:
  "count_from (CHR ''I'' # rest) skip (map lower_char s) = 0"
  by (induction s arbitrary: skip)
     (simp_all add: lower_char_not_capital_I lower_char_not_capital_I [symmetric])

lemma capitalised_fillers_never_found:
  "str_count (lower text) ''I think'' = 0 \<and> str_count (lower text) ''I guess'' = 0"
  by (simp add: str_count_def lower_def count_from_capital_I)

text \<open>
  Claim C1, at the text \<^verbatim>\<open>I think\<close>: the program counts no filler in it, while the
  sum of the case-insensitive occurrences over the vocabulary is 1.
\<close>

theorem i_think_not_counted:
  "count_filler_words ''I think'' = 0 \<and> filler_count_spec ''I think'' = 1"
  by code_simp

subsection \<open>The passive voice penalty\<close>

text \<open>
  \<^verbatim>\<open>re.split\<close> returns at least one piece, so the test \<^verbatim>\<open>total_sentences > 0\<close> of
  \<^verbatim>\<open>score_clarity\<close> never fails.
\<close>

lemma cut_at_nonempty: "cut_at sps pos s \<noteq> []"
  by (cases sps) auto

lemma re_split_nonempty: "0 < length (re_split r text)"
  by (simp add: re_split_def cut_at_nonempty)

text \<open>
  Claim C5, at the text \<^verbatim>\<open>The door was painted. I like it. Thanks.\<close>: one passive
  match in three sentences is a ratio above 0.3, but \<^verbatim>\<open>score_clarity\<close> divides by
  the four pieces of \<^verbatim>\<open>re.split\<close>, the empty piece after the last full stop
  included, and does not apply the penalty: the score is 9, not 7.
\<close>

theorem passive_penalty_missed:
  "detect_passive_voice painted_door = 1
   \<and> length (sentences_of painted_door) = 3
   \<and> length (re_split sentence_stops painted_door) = 4
   \<and> passive_penalised_spec painted_door
   \<and> \<not> passive_penalised painted_door
   \<and> score_clarity painted_door = 9"
  by code_simp

subsection \<open>Boundary setting\<close>

lemma refusal_counts:
  "detect_boundary_setting refusal = (2, 0, 0) \<and> score_boundary_setting refusal = 7"
  by code_simp

lemma refusal_alternative: "re_search alternative_pattern refusal"
  by code_simp

lemma refusal_length: "length refusal = 47"
  by (simp add: refusal_def)

lemma refusal_words_joined: "join_words refusal_words = refusal"
  by (simp add: refusal_words_def refusal_def)

lemma list_all_upt: "list_all P [a..<b] \<Longrightarrow> a \<le> i \<Longrightarrow> i < b \<Longrightarrow> P i"
  by (simp add: list_all_iff)

lemma sorry_before_each_word: "list_all sorry_before_word [0..<10]"
  by code_simp

text \<open>
  The same at the level of characters: \<^verbatim>\<open>sorry\<close> with a space on each side,
  inserted before any character of the text or at its end, gives the score 2,
  except inside \<^verbatim>\<open>I can\<close>, where it gives 0.
\<close>

lemma sorry_before_chars_0_11: "list_all sorry_before_char [0..<12]"
  by code_simp

lemma sorry_before_chars_12_23: "list_all sorry_before_char [12..<24]"
  by code_simp

lemma sorry_before_chars_24_35: "list_all sorry_before_char [24..<36]"
  by code_simp

lemma sorry_before_chars_36_47: "list_all sorry_before_char [36..<48]"
  by code_simp

lemma sorry_before_each_char:
  assumes "i \<le> length refusal"
  shows "score_boundary_setting (insert_at i '' sorry '' refusal)
           = (if 4 < i \<and> i < 9 then 0 else 2)"
proof -
  consider "i < 12" | "12 \<le> i" "i < 24" | "24 \<le> i" "i < 36" | "36 \<le> i" "i < 48"
    using assms unfolding refusal_length by linarith
  then have "sorry_before_char i"
  proof cases
    case 1
    then show ?thesis using list_all_upt [OF sorry_before_chars_0_11, of i] by simp
  next
    case 2
    then show ?thesis by (rule list_all_upt [OF sorry_before_chars_12_23])
  next
    case 3
    then show ?thesis by (rule list_all_upt [OF sorry_before_chars_24_35])
  next
    case 4
    then show ?thesis by (rule list_all_upt [OF sorry_before_chars_36_47])
  qed
  then show ?thesis by (simp add: sorry_before_char_def)
qed

text \<open>
  Claim C8 as stated fails: with the word \<^verbatim>\<open>sorry\<close> inserted between \<^verbatim>\<open>I\<close> and
  \<^verbatim>\<open>can't\<close> the apology is found, and the phrase \<^verbatim>\<open>I can\<close> that earned the
  alternative bonus is broken as well: the score falls from 7 to 0, by 7 and
  not by 5.
\<close>

theorem sorry_anywhere_counterexample:
  "score_boundary_setting ''No, I can't make it. I have another commitment.'' = 7
   \<and> score_boundary_setting ''No, I sorry can't make it. I have another commitment.'' = 0"
  by code_simp

text \<open>
  Claim C8, amended. The text has two direct-no matches, no apology and no
  justification, and scores 7: 5 for the direct no and 2 for the alternative
  bonus, which \<^verbatim>\<open>I can\<close> inside \<^verbatim>\<open>I can't\<close> earns. Inserting the word \<^verbatim>\<open>sorry\<close>
  before any word of the text, or after the last one, lowers the score by
  exactly 5, except between \<^verbatim>\<open>I\<close> and \<^verbatim>\<open>can't\<close>, where it lowers the score by 7.
\<close>

theorem sorry_as_word_costs_five:
  "join_words refusal_words = refusal
   \<and> detect_boundary_setting refusal = (2, 0, 0)
   \<and> re_search alternative_pattern refusal
   \<and> score_boundary_setting refusal = 7
   \<and> (j \<le> length refusal_words \<longrightarrow>
        score_boundary_setting (with_word_at j ''sorry'' refusal_words)
          = (if j = 2 then score_boundary_setting refusal - 7
             else score_boundary_setting refusal - 5))"
proof -
  have "j \<le> length refusal_words \<longrightarrow> sorry_before_word j"
    using list_all_upt [OF sorry_before_each_word, of j]
    by (simp add: refusal_words_def)
  then have "j \<le> length refusal_words \<longrightarrow>
        score_boundary_setting (with_word_at j ''sorry'' refusal_words)
          = (if j = 2 then 0 else 2)"
    by (simp add: sorry_before_word_def)
  with refusal_counts refusal_alternative refusal_words_joined show ?thesis by simp
qed

theorem sorry_as_word_costs_five_witness:
  "(0::nat) \<le> length refusal_words
   \<and> with_word_at 0 ''sorry'' refusal_words
       = ''sorry No, I can't make it. I have another commitment.''
   \<and> score_boundary_setting ''sorry No, I can't make it. I have another commitment.'' = 2
   \<and> (2::nat) \<le> length refusal_words
   \<and> with_word_at 2 ''sorry'' refusal_words
       = ''No, I sorry can't make it. I have another commitment.''
   \<and> score_boundary_setting ''No, I sorry can't make it. I have another commitment.'' = 0"
proof -
  have a: "(2::nat) \<le> length refusal_words" by (simp add: refusal_words_def)
  have b: "with_word_at 0 ''sorry'' refusal_words
       = ''sorry No, I can't make it. I have another commitment.''"
    by (simp add: with_word_at_def refusal_words_def)
  have c: "with_word_at 2 ''sorry'' refusal_words
       = ''No, I sorry can't make it. I have another commitment.''"
    by (simp add: with_word_at_def refusal_words_def)
  from sorry_as_word_costs_five [of 0]
  have d: "score_boundary_setting (with_word_at 0 ''sorry'' refusal_words) = 2" by simp
  from sorry_as_word_costs_five [of 2] a
  have e: "score_boundary_setting (with_word_at 2 ''sorry'' refusal_words) = 0" by simp
  from a b c d e show ?thesis by simp
qed

end
